theory Spec2Isabelle
  imports Complex_Main "HOL-Library.Multiset"
begin

section \<open>Values and exceptions\<close>

text \<open>
  The parsed response body is a Python value built from JSON. The client never
  computes with a float, so floats are kept abstract (type parameter \<open>'f\<close>).
  A dict is an association list read with \<open>map_of\<close>.
\<close>

datatype 'f json =
    JNull
  | JBool bool
  | JInt int
  | JFloat 'f
  | JStr string
  | JArr "'f json list"
  | JObj "(string \<times> 'f json) list"

text \<open>
  The exception classes that the client module names or raises, the built-in ones
  raised by subscripting and iterating, and one constructor for any other class a
  transport may raise. \<open>RetryExhaustedError\<close> and \<open>MissingCredentialError\<close> are the
  spec's names for what the retry policy and the credential lookup raise.
  \<open>OutsideModel\<close> is not a Python exception: it marks a response whose \<open>index\<close>
  values are not integers, where the order relation of Python values is not modelled.
\<close>

datatype 'f exc =
    ClientResponseError nat
  | ClientConnectionError
  | HTTPError
  | RuntimeError "'f json"
  | KeyError string
  | TypeError
  | OtherError string
  | RetryExhaustedError "'f exc"
  | MissingCredentialError
  | OutsideModel

text \<open>\<open>v[k]\<close> for a string key: only a dict can be subscripted with a string.\<close>

fun py_getitem :: "'f json \<Rightarrow> string \<Rightarrow> 'f exc + 'f json" where
  "py_getitem (JObj kv) k = (case map_of kv k of None \<Rightarrow> Inl (KeyError k) | Some v \<Rightarrow> Inr v)"
| "py_getitem _ k = Inl TypeError"

text \<open>Iterating a value: a list gives its elements, a dict its keys, a string its characters.\<close>

fun py_iter :: "'f json \<Rightarrow> 'f exc + 'f json list" where
  "py_iter (JArr xs) = Inr xs"
| "py_iter (JObj kv) = Inr (map (\<lambda>p. JStr (fst p)) kv)"
| "py_iter (JStr s) = Inr (map (\<lambda>c. JStr [c]) s)"
| "py_iter _ = Inl TypeError"

text \<open>A comprehension \<open>[f x for x in xs]\<close>: the first element on which \<open>f\<close> raises ends it.\<close>

primrec collect :: "('a \<Rightarrow> 'e + 'b) \<Rightarrow> 'a list \<Rightarrow> 'e + 'b list" where
  "collect f [] = Inr []"
| "collect f (x # xs) =
     (case f x of
        Inl e \<Rightarrow> Inl e
      | Inr y \<Rightarrow> (case collect f xs of Inl e \<Rightarrow> Inl e | Inr ys \<Rightarrow> Inr (y # ys)))"

fun is_int :: "'f json \<Rightarrow> bool" where
  "is_int (JInt i) = True"
| "is_int _ = False"

text \<open>The sort key \<open>e["index"]\<close> of an item whose index is an integer.\<close>

definition index_int :: "'f json \<Rightarrow> int" where
  "index_int e = (case py_getitem e ''index'' of Inr (JInt i) \<Rightarrow> i | _ \<Rightarrow> 0)"

text \<open>
  \<open>sorted(data, key=lambda e: e["index"])\<close>: the keys are computed first, for every
  item in order, then the items are sorted by key. Python's \<open>sorted\<close> is a stable
  ascending sort, as \<open>sort_key\<close> is.
\<close>

definition sorted_by_index :: "'f json \<Rightarrow> 'f exc + 'f json list" where
  "sorted_by_index data =
     (case py_iter data of
        Inl e \<Rightarrow> Inl e
      | Inr xs \<Rightarrow>
          (case collect (\<lambda>e. py_getitem e ''index'') xs of
             Inl e \<Rightarrow> Inl e
           | Inr ks \<Rightarrow> if list_all is_int ks then Inr (sort_key index_int xs) else Inl OutsideModel))"

text \<open>\<open>[result["embedding"] for result in sorted_embeddings]\<close>\<close>

definition embeddings_of :: "'f json list \<Rightarrow> 'f exc + 'f json list" where
  "embeddings_of sorted_embeddings = collect (\<lambda>result. py_getitem result ''embedding'') sorted_embeddings"

section \<open>Transport\<close>

text \<open>
  The HTTP libraries are outside the repository. One call into them either raises or
  delivers a reply with a status code and a body parsed to a dict. A transport is a
  script of such events, one per call, and the log of the requests it has received.
\<close>

datatype 'f event =
    Raise "'f exc"
  | Reply nat "(string \<times> 'f json) list"

record request =
  req_url :: string
  req_headers :: "(string \<times> string) list"
  req_input :: "string list"
  req_model :: string

record 'f transport =
  replies :: "nat \<Rightarrow> 'f event"
  log :: "request list"

definition post :: "request \<Rightarrow> 'f transport \<Rightarrow> 'f event \<times> 'f transport" where
  "post r t = (replies t (length (log t)), t\<lparr>log := log t @ [r]\<rparr>)"

section \<open>The client\<close>

definition JINA_API_URL :: string where
  "JINA_API_URL = ''https://api.jina.ai/v1/embeddings''"

definition KEY_NAME :: string where
  "KEY_NAME = ''JINA_API_KEY''"

record client =
  model_name :: string
  headers :: "(string \<times> string) list"

text \<open>
  Modelled from the spec: \<open>get_key\<close> (module \<open>superduperdb.ext.utils\<close>) is not among the
  sources. It looks the key name up in the process environment and fails with
  \<open>MissingCredentialError\<close> when the environment yields no value.
\<close>

definition get_key :: "(string \<rightharpoonup> string) \<Rightarrow> string \<Rightarrow> 'f exc + string" where
  "get_key env key_name = (case env key_name of None \<Rightarrow> Inl MissingCredentialError | Some v \<Rightarrow> Inr v)"

definition default_model_name :: string where
  "default_model_name = ''jina-embeddings-v2-base-en''"

text \<open>\<open>JinaAPIClient.__init__\<close>; the session carries the same headers.\<close>

definition init :: "(string \<rightharpoonup> string) \<Rightarrow> string option \<Rightarrow> string \<Rightarrow> 'f exc + client" where
  "init env api_key mname =
     (case (case api_key of None \<Rightarrow> get_key env KEY_NAME | Some k \<Rightarrow> Inr k) of
        Inl e \<Rightarrow> Inl e
      | Inr k \<Rightarrow>
          Inr \<lparr>model_name = mname,
               headers = [(''Authorization'', ''Bearer '' @ k),
                          (''Accept-Encoding'', ''identity''),
                          (''Content-type'', ''application/json'')]\<rparr>)"

definition mk_request :: "client \<Rightarrow> string list \<Rightarrow> request" where
  "mk_request c texts =
     \<lparr>req_url = JINA_API_URL, req_headers = headers c, req_input = texts, req_model = model_name c\<rparr>"

text \<open>The body of \<open>encode_batch\<close>: one attempt, without the decorator.\<close>

definition encode_batch_body ::
  "client \<Rightarrow> string list \<Rightarrow> 'f transport \<Rightarrow> ('f exc + 'f json list) \<times> 'f transport" where
  "encode_batch_body c texts t =
     (case post (mk_request c texts) t of
        (Raise e, t') \<Rightarrow> (Inl e, t')
      | (Reply status response, t') \<Rightarrow>
          (case map_of response ''data'' of
             None \<Rightarrow>
               (case map_of response ''detail'' of
                  None \<Rightarrow> (Inl (KeyError ''detail''), t')
                | Some d \<Rightarrow> (Inl (RuntimeError d), t'))
           | Some data \<Rightarrow>
               (case sorted_by_index data of
                  Inl e \<Rightarrow> (Inl e, t')
                | Inr sorted_embeddings \<Rightarrow> (embeddings_of sorted_embeddings, t'))))"

text \<open>
  The body of \<open>aencode_batch\<close>: \<open>raise_for_status\<close> raises \<open>ClientResponseError\<close> for a
  status of 400 or more, before the body is read.
\<close>

definition aencode_batch_body ::
  "client \<Rightarrow> string list \<Rightarrow> 'f transport \<Rightarrow> ('f exc + 'f json list) \<times> 'f transport" where
  "aencode_batch_body c texts t =
     (case post (mk_request c texts) t of
        (Raise e, t') \<Rightarrow> (Inl e, t')
      | (Reply status response_json, t') \<Rightarrow>
          if 400 \<le> status then (Inl (ClientResponseError status), t')
          else
            (case map_of response_json ''data'' of
               None \<Rightarrow>
                 (case map_of response_json ''detail'' of
                    None \<Rightarrow> (Inl (KeyError ''detail''), t')
                  | Some d \<Rightarrow> (Inl (RuntimeError d), t'))
             | Some data \<Rightarrow>
                 (case sorted_by_index data of
                    Inl e \<Rightarrow> (Inl e, t')
                  | Inr sorted_embeddings \<Rightarrow> (embeddings_of sorted_embeddings, t'))))"

section \<open>Retry\<close>

text \<open>
  Modelled from the spec: the class \<open>Retry\<close> (module \<open>superduperdb.misc.retry\<close>) is not
  among the sources. It executes the operation; an error of a transient kind is retried,
  up to \<open>max_attempts\<close> attempts in total, the first included; any other error propagates
  at once; when the attempts are used up the last transient error is raised wrapped in
  \<open>RetryExhaustedError\<close>. The backoff delay changes no result and is left out.
  \<open>retry_loop\<close> counts the retries that remain.
\<close>

primrec retry_loop ::
  "('f exc \<Rightarrow> bool) \<Rightarrow> ('s \<Rightarrow> ('f exc + 'a) \<times> 's) \<Rightarrow> nat \<Rightarrow> 's \<Rightarrow> ('f exc + 'a) \<times> 's" where
  "retry_loop transient operation 0 s =
     (case operation s of
        (Inr v, s') \<Rightarrow> (Inr v, s')
      | (Inl e, s') \<Rightarrow> if transient e then (Inl (RetryExhaustedError e), s') else (Inl e, s'))"
| "retry_loop transient operation (Suc n) s =
     (case operation s of
        (Inr v, s') \<Rightarrow> (Inr v, s')
      | (Inl e, s') \<Rightarrow> if transient e then retry_loop transient operation n s' else (Inl e, s'))"

definition with_retry ::
  "('s \<Rightarrow> ('f exc + 'a) \<times> 's) \<Rightarrow> ('f exc \<Rightarrow> bool) \<Rightarrow> nat \<Rightarrow> 's \<Rightarrow> ('f exc + 'a) \<times> 's" where
  "with_retry operation transient max_attempts s = retry_loop transient operation (max_attempts - 1) s"

text \<open>
  \<open>retry = Retry(exception_types=(ClientResponseError, ClientConnectionError, HTTPError))\<close>:
  the classes the module lists as transient.
\<close>

fun exception_types :: "'f exc \<Rightarrow> bool" where
  "exception_types (ClientResponseError status) = True"
| "exception_types ClientConnectionError = True"
| "exception_types HTTPError = True"
| "exception_types _ = False"

definition retry ::
  "nat \<Rightarrow> ('s \<Rightarrow> ('f exc + 'a) \<times> 's) \<Rightarrow> 's \<Rightarrow> ('f exc + 'a) \<times> 's" where
  "retry max_attempts operation = with_retry operation exception_types max_attempts"

text \<open>The decorated methods; \<open>max_attempts\<close> is the retry configuration of the process.\<close>

definition encode_batch ::
  "nat \<Rightarrow> client \<Rightarrow> string list \<Rightarrow> 'f transport \<Rightarrow> ('f exc + 'f json list) \<times> 'f transport" where
  "encode_batch max_attempts c texts = retry max_attempts (encode_batch_body c texts)"

definition aencode_batch ::
  "nat \<Rightarrow> client \<Rightarrow> string list \<Rightarrow> 'f transport \<Rightarrow> ('f exc + 'f json list) \<times> 'f transport" where
  "aencode_batch max_attempts c texts = retry max_attempts (aencode_batch_body c texts)"

section \<open>Vocabulary of the statements\<close>

text \<open>
  An item as the service documents it: a dict with an integer under \<open>index\<close> and some
  value under \<open>embedding\<close>.
\<close>

definition has_int_index :: "'f json \<Rightarrow> bool" where
  "has_int_index e = (case py_getitem e ''index'' of Inr k \<Rightarrow> is_int k | Inl x \<Rightarrow> False)"

definition well_formed_item :: "'f json \<Rightarrow> bool" where
  "well_formed_item e =
     (has_int_index e \<and> (case py_getitem e ''embedding'' of Inr v \<Rightarrow> True | Inl x \<Rightarrow> False))"

definition embedding_of :: "'f json \<Rightarrow> 'f json" where
  "embedding_of e = (case py_getitem e ''embedding'' of Inr v \<Rightarrow> v | Inl x \<Rightarrow> JNull)"

text \<open>What one attempt returns or raises, as a function of the event the transport delivers.\<close>

definition body_outcome :: "(string \<times> 'f json) list \<Rightarrow> 'f exc + 'f json list" where
  "body_outcome response =
     (case map_of response ''data'' of
        None \<Rightarrow> (case map_of response ''detail'' of None \<Rightarrow> Inl (KeyError ''detail'') | Some d \<Rightarrow> Inl (RuntimeError d))
      | Some data \<Rightarrow>
          (case sorted_by_index data of Inl e \<Rightarrow> Inl e | Inr xs \<Rightarrow> embeddings_of xs))"

definition sync_outcome :: "'f event \<Rightarrow> 'f exc + 'f json list" where
  "sync_outcome ev = (case ev of Raise e \<Rightarrow> Inl e | Reply status response \<Rightarrow> body_outcome response)"

definition async_outcome :: "'f event \<Rightarrow> 'f exc + 'f json list" where
  "async_outcome ev =
     (case ev of
        Raise e \<Rightarrow> Inl e
      | Reply status response \<Rightarrow>
          if 400 \<le> status then Inl (ClientResponseError status) else body_outcome response)"

text \<open>Concrete values for the examples: a client, and the transport that plays a script.\<close>

definition example_client :: client where
  "example_client = \<lparr>model_name = default_model_name, headers = [(''Authorization'', ''Bearer k'')]\<rparr>"

definition scripted :: "(nat \<Rightarrow> 'f event) \<Rightarrow> 'f transport" where
  "scripted f = \<lparr>replies = f, log = []\<rparr>"

section \<open>Lemmas about the building blocks\<close>

lemma collect_all:
  "(\<And>x. x \<in> set xs \<Longrightarrow> f x = Inr (g x)) \<Longrightarrow> collect f xs = Inr (map g xs)"
  by (induction xs) auto

lemma collect_length: "collect f xs = Inr ys \<Longrightarrow> length ys = length xs"
  by (induction xs arbitrary: ys) (auto split: sum.splits)

lemma is_int_iff: "is_int k \<longleftrightarrow> (\<exists>i. k = JInt i)"
  by (cases k) auto

lemma has_int_index_iff: "has_int_index e \<longleftrightarrow> (\<exists>i. py_getitem e ''index'' = Inr (JInt i))"
  by (auto simp: has_int_index_def is_int_iff split: sum.splits)

lemma well_formed_item_iff:
  "well_formed_item e \<longleftrightarrow>
     (\<exists>i v. py_getitem e ''index'' = Inr (JInt i) \<and> py_getitem e ''embedding'' = Inr v)"
  by (auto simp: well_formed_item_def has_int_index_iff split: sum.splits)

lemma well_formed_embedding:
  "well_formed_item e \<Longrightarrow> py_getitem e ''embedding'' = Inr (embedding_of e)"
  by (auto simp: well_formed_item_iff embedding_of_def)

lemma sorted_by_index_int_keys:
  assumes "list_all has_int_index xs"
  shows "sorted_by_index (JArr xs) = Inr (sort_key index_int xs)"
proof -
  have k: "\<And>e. e \<in> set xs \<Longrightarrow> py_getitem e ''index'' = Inr (JInt (index_int e))"
  proof -
    fix e assume "e \<in> set xs"
    then have "has_int_index e" using assms by (simp add: list_all_iff)
    then obtain i where "py_getitem e ''index'' = Inr (JInt i)"
      by (auto simp: has_int_index_iff)
    then show "py_getitem e ''index'' = Inr (JInt (index_int e))" by (simp add: index_int_def)
  qed
  have "collect (\<lambda>e. py_getitem e ''index'') xs = Inr (map (\<lambda>e. JInt (index_int e)) xs)"
    using k by (rule collect_all)
  then show ?thesis
    by (simp add: sorted_by_index_def list_all_iff)
qed

lemma sorted_by_index_well_formed:
  "list_all well_formed_item xs \<Longrightarrow> sorted_by_index (JArr xs) = Inr (sort_key index_int xs)"
  by (rule sorted_by_index_int_keys) (simp add: list_all_iff well_formed_item_def)

lemma embeddings_of_well_formed:
  "list_all well_formed_item xs \<Longrightarrow> embeddings_of xs = Inr (map embedding_of xs)"
  unfolding embeddings_of_def
  by (rule collect_all) (simp add: list_all_iff well_formed_embedding)

lemma body_outcome_well_formed:
  assumes "map_of response ''data'' = Some (JArr items)" "list_all well_formed_item items"
  shows "body_outcome response = Inr (map embedding_of (sort_key index_int items))"
proof -
  have "list_all well_formed_item (sort_key index_int items)"
    using assms(2) by (simp add: list_all_iff)
  then show ?thesis
    using assms by (simp add: body_outcome_def sorted_by_index_well_formed embeddings_of_well_formed)
qed

lemma body_outcome_length:
  assumes "map_of response ''data'' = Some data" "py_iter data = Inr items"
    "body_outcome response = Inr es"
  shows "length es = length items"
proof -
  from assms obtain ys where ys: "sorted_by_index data = Inr ys" "embeddings_of ys = Inr es"
    by (auto simp: body_outcome_def split: sum.splits)
  from ys(1) assms(2) have "ys = sort_key index_int items"
    by (auto simp: sorted_by_index_def split: sum.splits if_splits)
  moreover have "length es = length ys"
    using ys(2) unfolding embeddings_of_def by (rule collect_length)
  ultimately show ?thesis by simp
qed

text \<open>Each body sends exactly one request and returns a function of the event it gets back.\<close>

lemma encode_batch_body_eq:
  "encode_batch_body c texts t =
     (sync_outcome (replies t (length (log t))), t\<lparr>log := log t @ [mk_request c texts]\<rparr>)"
  by (simp add: encode_batch_body_def post_def sync_outcome_def body_outcome_def
      split: event.splits option.splits sum.splits)

lemma aencode_batch_body_eq:
  "aencode_batch_body c texts t =
     (async_outcome (replies t (length (log t))), t\<lparr>log := log t @ [mk_request c texts]\<rparr>)"
  by (simp add: aencode_batch_body_def post_def async_outcome_def body_outcome_def
      split: event.splits option.splits sum.splits)

text \<open>Where the two bodies agree: a raised exception, or a reply whose status is below 400.\<close>

lemma bodies_agree_below_400:
  assumes "\<And>status response. replies t (length (log t)) = Reply status response \<Longrightarrow> status < 400"
  shows "aencode_batch_body c texts t = encode_batch_body c texts t"
  using assms
  by (cases "replies t (length (log t))")
    (auto simp: encode_batch_body_eq aencode_batch_body_eq sync_outcome_def async_outcome_def)

lemma sorted_perm_upt:
  assumes "mset ks = mset (map int [0..<n])" "sorted ks"
  shows "ks = map int [0..<n]"
proof -
  have "sorted (map int [0..<n])"
    by (simp add: sorted_map)
  then have "sort ks = map int [0..<n]"
    using assms(1) by (intro properties_for_sort) simp_all
  moreover have "sort ks = ks"
    using assms(2) by (simp add: sort_key_id_if_sorted)
  ultimately show ?thesis by simp
qed

subsection \<open>The retry loop on a scripted transport\<close>

lemma retry_loop_succeeds:
  assumes op: "\<And>t. operation t = (f (replies t (length (log t))), t\<lparr>log := log t @ [r]\<rparr>)"
    and errs: "\<And>i. i < N \<Longrightarrow> f (replies t (length (log t) + i)) = Inl (errs i) \<and> transient (errs i)"
    and ok: "f (replies t (length (log t) + N)) = Inr v"
    and le: "N \<le> n"
  shows "retry_loop transient operation n t = (Inr v, t\<lparr>log := log t @ replicate (Suc N) r\<rparr>)"
  using errs ok le
proof (induction n arbitrary: t N errs)
  case 0
  then show ?case using op [of t] by simp
next
  case (Suc n)
  show ?case
  proof (cases N)
    case 0
    with Suc.prems(2) show ?thesis using op [of t] by simp
  next
    case (Suc m)
    let ?t = "t\<lparr>log := log t @ [r]\<rparr>"
    have first: "f (replies t (length (log t))) = Inl (errs 0)" "transient (errs 0)"
      using Suc.prems(1) [of 0] Suc by simp_all
    have e: "f (replies ?t (length (log ?t) + i)) = Inl (errs (Suc i)) \<and> transient (errs (Suc i))"
      if "i < m" for i
      using Suc.prems(1) [of "Suc i"] Suc that by simp
    have k: "f (replies ?t (length (log ?t) + m)) = Inr v"
      using Suc.prems(2) Suc by simp
    have "m \<le> n" using Suc.prems(3) Suc by simp
    then have "retry_loop transient operation n ?t = (Inr v, ?t\<lparr>log := log ?t @ replicate (Suc m) r\<rparr>)"
      using Suc.IH [of m ?t "\<lambda>i. errs (Suc i)"] e k by blast
    moreover have "operation t = (Inl (errs 0), ?t)"
      using op [of t] first by simp
    ultimately show ?thesis
      using first Suc by (simp add: replicate_app_Cons_same)
  qed
qed

lemma retry_loop_exhausted:
  assumes op: "\<And>t. operation t = (f (replies t (length (log t))), t\<lparr>log := log t @ [r]\<rparr>)"
    and errs: "\<And>i. i \<le> n \<Longrightarrow> f (replies t (length (log t) + i)) = Inl (errs i) \<and> transient (errs i)"
  shows "retry_loop transient operation n t =
           (Inl (RetryExhaustedError (errs n)), t\<lparr>log := log t @ replicate (Suc n) r\<rparr>)"
  using errs
proof (induction n arbitrary: t errs)
  case 0
  from "0.prems" [of 0] show ?case using op [of t] by simp
next
  case (Suc n)
  let ?t = "t\<lparr>log := log t @ [r]\<rparr>"
  have first: "f (replies t (length (log t))) = Inl (errs 0)" "transient (errs 0)"
    using Suc.prems [of 0] by simp_all
  have e: "f (replies ?t (length (log ?t) + i)) = Inl (errs (Suc i)) \<and> transient (errs (Suc i))"
    if "i \<le> n" for i
    using Suc.prems [of "Suc i"] that by simp
  have "retry_loop transient operation n ?t =
          (Inl (RetryExhaustedError (errs (Suc n))), ?t\<lparr>log := log ?t @ replicate (Suc n) r\<rparr>)"
    using Suc.IH [of ?t "\<lambda>i. errs (Suc i)"] e by blast
  moreover have "operation t = (Inl (errs 0), ?t)"
    using op [of t] first by simp
  ultimately show ?case
    using first by (simp add: replicate_app_Cons_same)
qed

lemma retry_loop_permanent:
  assumes "operation s = (Inl e, s')" "\<not> transient e"
  shows "retry_loop transient operation n s = (Inl e, s')"
  using assms by (cases n) simp_all

section \<open>Ordering of the result\<close>

text \<open>
  Claim C1. When the response that an attempt parses holds, under \<open>data\<close>, one well-formed
  item per input position, the indices being a permutation of \<open>0..len(texts)-1\<close>, the
  attempt returns the embeddings in ascending order of index: position \<open>i\<close> of the result
  is the embedding of the item whose index is \<open>i\<close>. \<open>encode_batch\<close> parses every reply;
  \<open>aencode_batch\<close> parses a reply whose status is below 400.
\<close>

theorem encode_restores_input_order:
  assumes "replies t (length (log t)) = Reply status response"
    and "map_of response ''data'' = Some (JArr items)"
    and "list_all well_formed_item items"
    and "mset (map index_int items) = mset (map int [0..<length texts])"
  shows "\<exists>es. fst (encode_batch_body c texts t) = Inr es \<and>
           (status < 400 \<longrightarrow> fst (aencode_batch_body c texts t) = Inr es) \<and>
           es = map embedding_of (sort_key index_int items) \<and>
           length es = length texts \<and>
           (\<forall>i<length texts. \<exists>e\<in>set items. index_int e = int i \<and> es ! i = embedding_of e)"
proof -
  let ?ys = "sort_key index_int items"
  let ?es = "map embedding_of ?ys"
  have out: "body_outcome response = Inr ?es"
    using assms(2,3) by (rule body_outcome_well_formed)
  have "mset (map index_int ?ys) = mset (map int [0..<length texts])"
    using assms(4) by simp
  then have keys: "map index_int ?ys = map int [0..<length texts]"
    by (rule sorted_perm_upt) (rule sorted_sort_key)
  have len: "length ?ys = length texts"
    using arg_cong [OF keys, of length] by simp
  have pos: "\<exists>e\<in>set items. index_int e = int i \<and> ?es ! i = embedding_of e"
    if "i < length texts" for i
  proof -
    have "index_int (?ys ! i) = map index_int ?ys ! i"
      using that len by simp
    also have "\<dots> = int i"
      using that by (simp add: keys)
    finally have "index_int (?ys ! i) = int i" .
    moreover have "?ys ! i \<in> set items"
      using that len nth_mem [of i ?ys] by simp
    moreover have "?es ! i = embedding_of (?ys ! i)"
      using that len by simp
    ultimately show ?thesis by blast
  qed
  have "fst (encode_batch_body c texts t) = Inr ?es"
    by (simp add: encode_batch_body_eq sync_outcome_def assms(1) out)
  moreover have "status < 400 \<longrightarrow> fst (aencode_batch_body c texts t) = Inr ?es"
    by (simp add: aencode_batch_body_eq async_outcome_def assms(1) out)
  ultimately show ?thesis
    using len pos by simp
qed

text \<open>
  The scenario of the spec: input \<open>["a", "b"]\<close>, the service answers with index 1 before
  index 0, the result is \<open>[[0.1], [0.2]]\<close>.
\<close>

theorem encode_restores_input_order_witness:
  "fst (encode_batch_body example_client [''a'', ''b'']
          (scripted (\<lambda>n. Reply 200 [(''data'', JArr
             [JObj [(''index'', JInt 1), (''embedding'', JArr [JFloat (0.2::real)])],
              JObj [(''index'', JInt 0), (''embedding'', JArr [JFloat 0.1])]])])))
     = Inr [JArr [JFloat 0.1], JArr [JFloat 0.2]] \<and>
   fst (aencode_batch_body example_client [''a'', ''b'']
          (scripted (\<lambda>n. Reply 200 [(''data'', JArr
             [JObj [(''index'', JInt 1), (''embedding'', JArr [JFloat (0.2::real)])],
              JObj [(''index'', JInt 0), (''embedding'', JArr [JFloat 0.1])]])])))
     = Inr [JArr [JFloat 0.1], JArr [JFloat 0.2]]"
  using encode_restores_input_order [of
      "scripted (\<lambda>n. Reply 200 [(''data'', JArr
             [JObj [(''index'', JInt 1), (''embedding'', JArr [JFloat (0.2::real)])],
              JObj [(''index'', JInt 0), (''embedding'', JArr [JFloat 0.1])]])])"
      200
      "[(''data'', JArr
             [JObj [(''index'', JInt 1), (''embedding'', JArr [JFloat (0.2::real)])],
              JObj [(''index'', JInt 0), (''embedding'', JArr [JFloat 0.1])]])]"
      "[JObj [(''index'', JInt 1), (''embedding'', JArr [JFloat (0.2::real)])],
              JObj [(''index'', JInt 0), (''embedding'', JArr [JFloat 0.1])]]"
      "[''a'', ''b'']" example_client]
  by (simp add: scripted_def well_formed_item_def has_int_index_def index_int_def
      embedding_of_def upt_rec)

text \<open>
  Claim C8. The result has as many elements as the response has items. With one
  well-formed item per input that is \<open>len(texts)\<close>; with fewer or more items the result
  has that other length: nothing is padded or cut.
\<close>

theorem result_length_is_item_count:
  assumes "replies t (length (log t)) = Reply status response"
    and "map_of response ''data'' = Some (JArr items)"
  shows "(list_all well_formed_item items \<longrightarrow>
            (\<exists>es. fst (encode_batch_body c texts t) = Inr es \<and> length es = length items \<and>
                  (length items = length texts \<longrightarrow> length es = length texts))) \<and>
         (list_all well_formed_item items \<and> status < 400 \<longrightarrow>
            (\<exists>es. fst (aencode_batch_body c texts t) = Inr es \<and> length es = length items \<and>
                  (length items = length texts \<longrightarrow> length es = length texts))) \<and>
         (\<forall>es. fst (encode_batch_body c texts t) = Inr es \<longrightarrow> length es = length items) \<and>
         (\<forall>es. fst (aencode_batch_body c texts t) = Inr es \<longrightarrow> length es = length items)"
proof -
  have wf: "body_outcome response = Inr (map embedding_of (sort_key index_int items))"
    if "list_all well_formed_item items"
    using assms(2) that by (rule body_outcome_well_formed)
  have len: "length es = length items" if "body_outcome response = Inr es" for es
    using assms(2) _ that by (rule body_outcome_length) simp
  have s: "fst (encode_batch_body c texts t) = body_outcome response"
    by (simp add: encode_batch_body_eq sync_outcome_def assms(1))
  have a: "fst (aencode_batch_body c texts t) =
      (if 400 \<le> status then Inl (ClientResponseError status) else body_outcome response)"
    by (simp add: aencode_batch_body_eq async_outcome_def assms(1))
  show ?thesis
    using wf len by (auto simp: s a split: if_splits)
qed

text \<open>Two inputs, one item in the response: the result has one element.\<close>

theorem result_length_is_item_count_witness:
  "fst (encode_batch_body example_client [''a'', ''b'']
          (scripted (\<lambda>n. Reply 200 [(''data'', JArr
             [JObj [(''index'', JInt 0), (''embedding'', JArr [JFloat (0.1::real)])]])])))
     = Inr [JArr [JFloat 0.1]] \<and>
   fst (aencode_batch_body example_client [''a'', ''b'']
          (scripted (\<lambda>n. Reply 200 [(''data'', JArr
             [JObj [(''index'', JInt 0), (''embedding'', JArr [JFloat (0.1::real)])]])])))
     = Inr [JArr [JFloat 0.1]]"
  using result_length_is_item_count [of
      "scripted (\<lambda>n. Reply 200 [(''data'', JArr
             [JObj [(''index'', JInt 0), (''embedding'', JArr [JFloat (0.1::real)])]])])"
      200
      "[(''data'', JArr [JObj [(''index'', JInt 0), (''embedding'', JArr [JFloat (0.1::real)])]])]"
      "[JObj [(''index'', JInt 0), (''embedding'', JArr [JFloat (0.1::real)])]]"
      example_client "[''a'', ''b'']"]
  by (simp add: scripted_def encode_batch_body_eq aencode_batch_body_eq sync_outcome_def
      async_outcome_def body_outcome_def sorted_by_index_def embeddings_of_def index_int_def)

text \<open>
  Claim C9. The sort by index is stable and idempotent: on items that are already in
  ascending order of index it returns the same list, items of equal index keep the order
  they had in the response, and sorting the sorted list again changes nothing.
\<close>

theorem sort_step_stable_idempotent:
  assumes "list_all has_int_index items"
  shows "\<exists>ys. sorted_by_index (JArr items) = Inr ys \<and>
           (sorted (map index_int items) \<longrightarrow> ys = items) \<and>
           (\<forall>k. filter (\<lambda>e. index_int e = k) ys = filter (\<lambda>e. index_int e = k) items) \<and>
           sorted (map index_int ys) \<and>
           sorted_by_index (JArr ys) = Inr ys"
proof -
  let ?ys = "sort_key index_int items"
  have a: "sorted_by_index (JArr items) = Inr ?ys"
    using assms by (rule sorted_by_index_int_keys)
  have "list_all has_int_index ?ys"
    using assms by (simp add: list_all_iff)
  then have "sorted_by_index (JArr ?ys) = Inr (sort_key index_int ?ys)"
    by (rule sorted_by_index_int_keys)
  moreover have "sort_key index_int ?ys = ?ys"
    by (rule sort_key_id_if_sorted) (rule sorted_sort_key)
  ultimately have b: "sorted_by_index (JArr ?ys) = Inr ?ys" by simp
  have c: "sorted (map index_int items) \<longrightarrow> ?ys = items"
    by (simp add: sort_key_id_if_sorted)
  have d: "\<forall>k. filter (\<lambda>e. index_int e = k) ?ys = filter (\<lambda>e. index_int e = k) items"
    by (simp add: sort_key_stable)
  show ?thesis
    using a b c d sorted_sort_key [of index_int items] by blast
qed

text \<open>A malformed response with index 1 twice: the two items keep their order.\<close>

theorem sort_step_stable_idempotent_witness:
  "sorted_by_index (JArr
      [JObj [(''index'', JInt 1), (''embedding'', JStr ''first'')],
       JObj [(''index'', JInt 0), (''embedding'', JStr ''zero'')],
       JObj [(''index'', JInt 1), (''embedding'', JStr ''second'' :: real json)]])
   = Inr [JObj [(''index'', JInt 0), (''embedding'', JStr ''zero'')],
          JObj [(''index'', JInt 1), (''embedding'', JStr ''first'')],
          JObj [(''index'', JInt 1), (''embedding'', JStr ''second'')]] \<and>
   sorted_by_index (JArr
      [JObj [(''index'', JInt 0), (''embedding'', JStr ''zero'')],
       JObj [(''index'', JInt 1), (''embedding'', JStr ''first'')],
       JObj [(''index'', JInt 1), (''embedding'', JStr ''second'' :: real json)]])
   = Inr [JObj [(''index'', JInt 0), (''embedding'', JStr ''zero'')],
          JObj [(''index'', JInt 1), (''embedding'', JStr ''first'')],
          JObj [(''index'', JInt 1), (''embedding'', JStr ''second'')]]"
  using sort_step_stable_idempotent [of
      "[JObj [(''index'', JInt 1), (''embedding'', JStr ''first'')],
        JObj [(''index'', JInt 0), (''embedding'', JStr ''zero'')],
        JObj [(''index'', JInt 1), (''embedding'', JStr ''second'' :: real json)]]"]
  by (simp add: has_int_index_def sorted_by_index_def index_int_def)

section \<open>The request\<close>

text \<open>
  Claim C10. Neither body validates \<open>texts\<close>: for every list, the empty one included, one
  request carrying exactly that list is sent, and what the call returns or raises does not
  depend on \<open>texts\<close> but only on the event the transport delivers.
\<close>

theorem no_validation_of_texts:
  "snd (encode_batch_body c texts t) = t\<lparr>log := log t @ [mk_request c texts]\<rparr> \<and>
   snd (aencode_batch_body c texts t) = t\<lparr>log := log t @ [mk_request c texts]\<rparr> \<and>
   req_input (mk_request c texts) = texts \<and>
   req_model (mk_request c texts) = model_name c \<and>
   fst (encode_batch_body c texts t) = fst (encode_batch_body c texts' t) \<and>
   fst (aencode_batch_body c texts t) = fst (aencode_batch_body c texts' t) \<and>
   fst (encode_batch_body c [] t) = sync_outcome (replies t (length (log t))) \<and>
   fst (aencode_batch_body c [] t) = async_outcome (replies t (length (log t)))"
  by (simp add: encode_batch_body_eq aencode_batch_body_eq mk_request_def)

section \<open>Errors of the service\<close>

text \<open>
  Claim C6, as amended. The body of a reply that is not an HTTP-level error (status below
  400), when it lacks \<open>data\<close> and carries \<open>detail\<close>, makes both bodies raise
  \<open>RuntimeError\<close> (the spec's ServiceError) with the value of \<open>detail\<close> as its message.
\<close>

theorem service_error_carries_detail:
  assumes "replies t (length (log t)) = Reply status response"
    and "status < 400"
    and "map_of response ''data'' = None"
    and "map_of response ''detail'' = Some d"
  shows "fst (encode_batch_body c texts t) = Inl (RuntimeError d) \<and>
         fst (aencode_batch_body c texts t) = Inl (RuntimeError d)"
  using assms
  by (simp add: encode_batch_body_eq aencode_batch_body_eq sync_outcome_def async_outcome_def
      body_outcome_def)

text \<open>The scenario of the spec: the service answers \<open>{"detail": "invalid model"}\<close>.\<close>

theorem service_error_carries_detail_witness:
  "fst (encode_batch_body example_client [''a'']
          (scripted (\<lambda>n. Reply 200 [(''detail'', JStr ''invalid model'' :: real json)])))
     = Inl (RuntimeError (JStr ''invalid model'')) \<and>
   fst (aencode_batch_body example_client [''a'']
          (scripted (\<lambda>n. Reply 200 [(''detail'', JStr ''invalid model'' :: real json)])))
     = Inl (RuntimeError (JStr ''invalid model''))"
  using service_error_carries_detail [of
      "scripted (\<lambda>n. Reply 200 [(''detail'', JStr ''invalid model'' :: real json)])"
      200 "[(''detail'', JStr ''invalid model'')]" "JStr ''invalid model''" example_client "[''a'']"]
  by (simp add: scripted_def)

text \<open>
  Claim C6 as the spec words it promises a generic message when \<open>detail\<close> is absent. A
  response with neither \<open>data\<close> nor \<open>detail\<close> raises \<open>KeyError\<close> from the lookup of
  \<open>detail\<close>, in both bodies.
\<close>

theorem missing_detail_counterexample:
  "fst (encode_batch_body example_client [''a'']
          (scripted (\<lambda>n. Reply 200 [(''message'', JStr ''invalid model'' :: real json)])))
     = Inl (KeyError ''detail'') \<and>
   fst (aencode_batch_body example_client [''a'']
          (scripted (\<lambda>n. Reply 200 [(''message'', JStr ''invalid model'' :: real json)])))
     = Inl (KeyError ''detail'')"
  by (simp add: encode_batch_body_def aencode_batch_body_def post_def scripted_def)

text \<open>
  Claim C5. An HTTP error status is meant to be transient in both bodies. In
  \<open>aencode_batch\<close> a reply with status 503 raises \<open>ClientResponseError\<close>, which is in the
  retry list. \<open>encode_batch\<close> never looks at the status: the same reply is parsed and
  raises \<open>RuntimeError\<close>, which is not in the retry list.
\<close>

theorem http_error_status_not_transient_in_sync:
  "fst (aencode_batch_body example_client [''a'']
          (scripted (\<lambda>n. Reply 503 [(''detail'', JStr ''overloaded'' :: real json)])))
     = Inl (ClientResponseError 503) \<and>
   exception_types (ClientResponseError 503 :: real exc) = True \<and>
   fst (encode_batch_body example_client [''a'']
          (scripted (\<lambda>n. Reply 503 [(''detail'', JStr ''overloaded'' :: real json)])))
     = Inl (RuntimeError (JStr ''overloaded'')) \<and>
   exception_types (RuntimeError (JStr ''overloaded'' :: real json)) = False"
  by (simp add: encode_batch_body_def aencode_batch_body_def post_def scripted_def)

text \<open>
  Claim C2. The two bodies are meant to give the same outcome on the same transport
  events. On a reply with status 500 that carries \<open>data\<close>, \<open>encode_batch\<close> returns the
  embeddings and \<open>aencode_batch\<close> raises \<open>ClientResponseError\<close>.
\<close>

theorem sync_async_differ_on_error_status:
  "fst (encode_batch_body example_client [''a'']
          (scripted (\<lambda>n. Reply 500 [(''data'', JArr
             [JObj [(''index'', JInt 0), (''embedding'', JArr [JFloat (0.1::real)])]])])))
     = Inr [JArr [JFloat 0.1]] \<and>
   fst (aencode_batch_body example_client [''a'']
          (scripted (\<lambda>n. Reply 500 [(''data'', JArr
             [JObj [(''index'', JInt 0), (''embedding'', JArr [JFloat (0.1::real)])]])])))
     = Inl (ClientResponseError 500)"
  by (simp add: encode_batch_body_def aencode_batch_body_def post_def scripted_def
      sorted_by_index_def embeddings_of_def index_int_def)

section \<open>Retry\<close>

text \<open>
  A reply without \<open>data\<close> ends the call at once, with or without \<open>detail\<close>: neither
  \<open>RuntimeError\<close> nor \<open>KeyError\<close> is in the retry list.
\<close>

lemma missing_data_ends_call:
  assumes "replies t (length (log t)) = Reply status response"
    and "status < 400"
    and "map_of response ''data'' = None"
  shows "encode_batch max_attempts c texts t =
           (Inl (case map_of response ''detail'' of
                   None \<Rightarrow> KeyError ''detail'' | Some d \<Rightarrow> RuntimeError d),
            t\<lparr>log := log t @ [mk_request c texts]\<rparr>)"
    and "aencode_batch max_attempts c texts t =
           (Inl (case map_of response ''detail'' of
                   None \<Rightarrow> KeyError ''detail'' | Some d \<Rightarrow> RuntimeError d),
            t\<lparr>log := log t @ [mk_request c texts]\<rparr>)"
proof -
  let ?e = "case map_of response ''detail'' of None \<Rightarrow> KeyError ''detail'' | Some d \<Rightarrow> RuntimeError d"
  have np: "\<not> exception_types ?e"
    by (simp split: option.splits)
  have b: "body_outcome response = Inl ?e"
    using assms(3) by (simp add: body_outcome_def split: option.splits)
  have "encode_batch_body c texts t = (Inl ?e, t\<lparr>log := log t @ [mk_request c texts]\<rparr>)"
    by (simp add: encode_batch_body_eq sync_outcome_def assms(1) b)
  then have "retry_loop exception_types (encode_batch_body c texts) (max_attempts - 1) t =
      (Inl ?e, t\<lparr>log := log t @ [mk_request c texts]\<rparr>)"
    using np by (rule retry_loop_permanent)
  then show "encode_batch max_attempts c texts t = (Inl ?e, t\<lparr>log := log t @ [mk_request c texts]\<rparr>)"
    by (simp add: encode_batch_def retry_def with_retry_def)
  have "aencode_batch_body c texts t = (Inl ?e, t\<lparr>log := log t @ [mk_request c texts]\<rparr>)"
    using assms(2) by (simp add: aencode_batch_body_eq async_outcome_def assms(1) b)
  then have "retry_loop exception_types (aencode_batch_body c texts) (max_attempts - 1) t =
      (Inl ?e, t\<lparr>log := log t @ [mk_request c texts]\<rparr>)"
    using np by (rule retry_loop_permanent)
  then show "aencode_batch max_attempts c texts t = (Inl ?e, t\<lparr>log := log t @ [mk_request c texts]\<rparr>)"
    by (simp add: aencode_batch_def retry_def with_retry_def)
qed

text \<open>
  Claim C4, as amended. The body of a reply that is not an HTTP-level error (status below
  400), when it lacks \<open>data\<close> and carries \<open>detail\<close>, makes both methods raise the
  service error after exactly one request, whatever the number of attempts allowed: the
  error is not in the retry list and is never retried.
\<close>

theorem permanent_error_not_retried:
  assumes "replies t (length (log t)) = Reply status response"
    and "status < 400"
    and "map_of response ''data'' = None"
    and "map_of response ''detail'' = Some d"
  shows "encode_batch max_attempts c texts t =
           (Inl (RuntimeError d), t\<lparr>log := log t @ [mk_request c texts]\<rparr>) \<and>
         aencode_batch max_attempts c texts t =
           (Inl (RuntimeError d), t\<lparr>log := log t @ [mk_request c texts]\<rparr>)"
  using missing_data_ends_call [OF assms(1,2,3), of max_attempts c texts] assms(4)
  by simp

text \<open>Five attempts allowed, one request sent.\<close>

theorem permanent_error_not_retried_witness:
  "length (log (snd (encode_batch 5 example_client [''a'']
      (scripted (\<lambda>n. Reply 200 [(''detail'', JStr ''invalid model'' :: real json)]))))) = 1 \<and>
   fst (encode_batch 5 example_client [''a'']
      (scripted (\<lambda>n. Reply 200 [(''detail'', JStr ''invalid model'' :: real json)])))
     = Inl (RuntimeError (JStr ''invalid model'')) \<and>
   length (log (snd (aencode_batch 5 example_client [''a'']
      (scripted (\<lambda>n. Reply 200 [(''detail'', JStr ''invalid model'' :: real json)]))))) = 1 \<and>
   fst (aencode_batch 5 example_client [''a'']
      (scripted (\<lambda>n. Reply 200 [(''detail'', JStr ''invalid model'' :: real json)])))
     = Inl (RuntimeError (JStr ''invalid model''))"
  using permanent_error_not_retried [of
      "scripted (\<lambda>n. Reply 200 [(''detail'', JStr ''invalid model'' :: real json)])"
      200 "[(''detail'', JStr ''invalid model'')]" "JStr ''invalid model''" 5 example_client "[''a'']"]
  by (simp add: scripted_def)

text \<open>
  Claim C4 as the spec words it has every response without \<open>data\<close> raise the service
  error. An empty body, with five attempts allowed, raises \<open>KeyError\<close> after one request,
  in both methods.
\<close>

theorem empty_body_raises_key_error_counterexample:
  "encode_batch 5 example_client [''a''] (scripted (\<lambda>n. Reply 200 ([] :: (string \<times> real json) list)))
     = (Inl (KeyError ''detail''),
        \<lparr>replies = (\<lambda>n. Reply 200 []), log = [mk_request example_client [''a'']]\<rparr>) \<and>
   aencode_batch 5 example_client [''a''] (scripted (\<lambda>n. Reply 200 ([] :: (string \<times> real json) list)))
     = (Inl (KeyError ''detail''),
        \<lparr>replies = (\<lambda>n. Reply 200 []), log = [mk_request example_client [''a'']]\<rparr>)"
  by (simp add: encode_batch_def aencode_batch_def retry_def with_retry_def eval_nat_numeral
      encode_batch_body_def aencode_batch_body_def post_def scripted_def)

text \<open>
  The retry bound holds of \<open>aencode_batch\<close>: its next \<open>N\<close> attempts fail with an error of
  the retry list (a listed exception raised by the transport, or a reply with an error
  status), the attempt after them succeeds.
\<close>

lemma aencode_batch_retry_bound:
  assumes "0 < max_attempts"
    and "\<And>i. i < N \<Longrightarrow>
           async_outcome (replies t (length (log t) + i)) = Inl (errs i) \<and> exception_types (errs i)"
    and "async_outcome (replies t (length (log t) + N)) = Inr v"
  shows "N < max_attempts \<Longrightarrow>
           aencode_batch max_attempts c texts t =
             (Inr v, t\<lparr>log := log t @ replicate (Suc N) (mk_request c texts)\<rparr>)"
    and "max_attempts \<le> N \<Longrightarrow>
           aencode_batch max_attempts c texts t =
             (Inl (RetryExhaustedError (errs (max_attempts - 1))),
              t\<lparr>log := log t @ replicate max_attempts (mk_request c texts)\<rparr>)"
proof -
  obtain n where n: "max_attempts = Suc n"
    using assms(1) by (cases max_attempts) simp_all
  let ?r = "mk_request c texts"
  show "aencode_batch max_attempts c texts t = (Inr v, t\<lparr>log := log t @ replicate (Suc N) ?r\<rparr>)"
    if "N < max_attempts"
  proof -
    have "N \<le> n" using that n by simp
    with aencode_batch_body_eq assms(2,3)
    have "retry_loop exception_types (aencode_batch_body c texts) n t =
            (Inr v, t\<lparr>log := log t @ replicate (Suc N) ?r\<rparr>)"
      by (rule retry_loop_succeeds)
    then show ?thesis
      by (simp add: aencode_batch_def retry_def with_retry_def n del: replicate.simps)
  qed
  show "aencode_batch max_attempts c texts t =
          (Inl (RetryExhaustedError (errs (max_attempts - 1))),
           t\<lparr>log := log t @ replicate max_attempts ?r\<rparr>)"
    if "max_attempts \<le> N"
  proof -
    have "retry_loop exception_types (aencode_batch_body c texts) n t =
            (Inl (RetryExhaustedError (errs n)), t\<lparr>log := log t @ replicate (Suc n) ?r\<rparr>)"
      by (rule retry_loop_exhausted [OF aencode_batch_body_eq]) (use assms(2) that n in simp)
    then show ?thesis
      by (simp add: aencode_batch_def retry_def with_retry_def n del: replicate.simps)
  qed
qed

text \<open>
  Claim C3. One transient failure, then a good reply, three attempts allowed: the call is
  to succeed on the second request. The failure is a reply with status 503.
  \<open>aencode_batch\<close> retries it and returns the embeddings after two requests.
  \<open>encode_batch\<close> does not check the status: it parses the body of the 503 reply, raises
  \<open>RuntimeError\<close>, which is not in the retry list, and ends after one request.
\<close>

theorem sync_retry_misses_error_status:
  "fst (encode_batch 3 example_client [''a'']
     (scripted (\<lambda>n. if n = 0 then Reply 503 [(''detail'', JStr ''overloaded'')]
                     else Reply 200 [(''data'', JArr [JObj [(''index'', JInt 0), (''embedding'', JArr [JFloat (0.1::real)])]])])))
     = Inl (RuntimeError (JStr ''overloaded'')) \<and>
   length (log (snd (encode_batch 3 example_client [''a'']
     (scripted (\<lambda>n. if n = 0 then Reply 503 [(''detail'', JStr ''overloaded'')]
                     else Reply 200 [(''data'', JArr [JObj [(''index'', JInt 0), (''embedding'', JArr [JFloat (0.1::real)])]])]))))) = 1 \<and>
   fst (aencode_batch 3 example_client [''a'']
     (scripted (\<lambda>n. if n = 0 then Reply 503 [(''detail'', JStr ''overloaded'')]
                     else Reply 200 [(''data'', JArr [JObj [(''index'', JInt 0), (''embedding'', JArr [JFloat (0.1::real)])]])])))
     = Inr [JArr [JFloat 0.1]] \<and>
   length (log (snd (aencode_batch 3 example_client [''a'']
     (scripted (\<lambda>n. if n = 0 then Reply 503 [(''detail'', JStr ''overloaded'')]
                     else Reply 200 [(''data'', JArr [JObj [(''index'', JInt 0), (''embedding'', JArr [JFloat (0.1::real)])]])]))))) = 2"
  by (simp add: encode_batch_def aencode_batch_def retry_def with_retry_def eval_nat_numeral
      encode_batch_body_def aencode_batch_body_def post_def scripted_def
      sorted_by_index_def embeddings_of_def index_int_def)

section \<open>Credentials\<close>

text \<open>
  Claim C7, as amended. An \<open>api_key\<close> that is given, the empty string included, is used
  unchanged. Only when \<open>api_key\<close> is \<open>None\<close> is the key looked up under \<open>JINA_API_KEY\<close>;
  when that lookup yields nothing the construction fails with \<open>MissingCredentialError\<close>.
  The construction takes no transport, so it sends no request.
\<close>

theorem credential_resolution:
  "(api_key = Some k \<longrightarrow>
      init env api_key mname =
        Inr \<lparr>model_name = mname,
             headers = [(''Authorization'', ''Bearer '' @ k),
                        (''Accept-Encoding'', ''identity''),
                        (''Content-type'', ''application/json'')]\<rparr>) \<and>
   (api_key = None \<and> env KEY_NAME = Some k \<longrightarrow>
      init env api_key mname =
        Inr \<lparr>model_name = mname,
             headers = [(''Authorization'', ''Bearer '' @ k),
                        (''Accept-Encoding'', ''identity''),
                        (''Content-type'', ''application/json'')]\<rparr>) \<and>
   (api_key = None \<and> env KEY_NAME = None \<longrightarrow> init env api_key mname = Inl MissingCredentialError)"
  by (simp add: init_def get_key_def)

theorem credential_resolution_witness:
  "(init Map.empty None default_model_name :: real exc + client) = Inl MissingCredentialError \<and>
   (init [KEY_NAME \<mapsto> ''env-key''] None ''m'' :: real exc + client) =
        Inr \<lparr>model_name = ''m'',
             headers = [(''Authorization'', ''Bearer env-key''),
                        (''Accept-Encoding'', ''identity''),
                        (''Content-type'', ''application/json'')]\<rparr> \<and>
   (init [KEY_NAME \<mapsto> ''env-key''] (Some ''given'') ''m'' :: real exc + client) =
        Inr \<lparr>model_name = ''m'',
             headers = [(''Authorization'', ''Bearer given''),
                        (''Accept-Encoding'', ''identity''),
                        (''Content-type'', ''application/json'')]\<rparr>"
  using credential_resolution [of None "''''" Map.empty default_model_name, where ?'a = real]
    credential_resolution [of None "''env-key''" "[KEY_NAME \<mapsto> ''env-key'']" "''m''", where ?'a = real]
    credential_resolution [of "Some ''given''" "''given''" "[KEY_NAME \<mapsto> ''env-key'']" "''m''", where ?'a = real]
  by simp

text \<open>
  Claim C7 as the spec words it sends an empty \<open>api_key\<close> to the lookup. The constructor
  tests \<open>api_key is None\<close> only: the empty string is used as the key, although the
  environment holds one.
\<close>

theorem empty_api_key_counterexample:
  "(init [KEY_NAME \<mapsto> ''env-key''] (Some '''') ''m'' :: real exc + client) =
        Inr \<lparr>model_name = ''m'',
             headers = [(''Authorization'', ''Bearer ''),
                        (''Accept-Encoding'', ''identity''),
                        (''Content-type'', ''application/json'')]\<rparr>"
  by (simp add: init_def)

end
